theory Spec2Isabelle
  imports Main "HOL-Library.Sublist" "HOL-Library.Word"
begin

section \<open>Text and bytes\<close>

text \<open>
  A Python \<open>str\<close> is a sequence of Unicode code points and \<open>bytes\<close> a sequence of
  octets. ASCII text of the source is written with \<open>lit\<close>; the stderr prefix of
  \<open>run_validation\<close> starts with U+26A0 U+FE0F and a decoder may produce U+FFFD, which is
  why the characters are code points and not 8-bit \<open>char\<close>s.
\<close>

type_synonym str = "nat list"
type_synonym bytes = "8 word list"

definition lit :: "string \<Rightarrow> str" where
  "lit s = map of_char s"

text \<open>\<open>s.startswith(p)\<close>.\<close>

fun startswith :: "str \<Rightarrow> str \<Rightarrow> bool" where
  "startswith s [] = True"
| "startswith [] (p # ps) = False"
| "startswith (x # xs) (p # ps) = (x = p \<and> startswith xs ps)"

text \<open>\<open>needle in hay\<close> on two \<open>str\<close>: the needle occurs as a contiguous substring.\<close>

fun str_in :: "str \<Rightarrow> str \<Rightarrow> bool" where
  "str_in needle [] = (needle = [])"
| "str_in needle (h # hs) = (startswith (h # hs) needle \<or> str_in needle hs)"


text \<open>\<open>hay.find(needle)\<close>: the first position at which \<open>needle\<close> starts, \<open>None\<close> for -1.\<close>

fun str_find :: "str \<Rightarrow> str \<Rightarrow> nat option" where
  "str_find needle [] = (if needle = [] then Some 0 else None)"
| "str_find needle (h # hs) =
     (if startswith (h # hs) needle then Some 0 else map_option Suc (str_find needle hs))"

section \<open>PATH augmentation on Windows\<close>

text \<open>
  Windows paths are written as their components, joined by a backslash (code point 92),
  as the raw string literals of the source spell them.
\<close>

fun win :: "string list \<Rightarrow> str" where
  "win [] = []"
| "win [c] = lit c"
| "win (c # cs) = lit c @ 92 # win cs"

text \<open>
  \<open>os.path.expandvars\<close> of \<open>ntpath\<close> returns a path with neither \<open>$\<close> (36) nor \<open>%\<close> (37)
  unchanged; what it substitutes otherwise depends on the host environment and is the
  parameter \<open>ev\<close>.
\<close>

definition expandvars :: "(str \<Rightarrow> str) \<Rightarrow> str \<Rightarrow> str" where
  "expandvars ev path = (if 36 \<notin> set path \<and> 37 \<notin> set path then path else ev path)"

definition azure_cli :: str where
  "azure_cli = win [''C:'', ''Program Files'', ''Azure CLI'', ''wbin'']"

definition azure_cli_x86 :: str where
  "azure_cli_x86 = win [''C:'', ''Program Files (x86)'', ''Azure CLI'', ''wbin'']"

definition nodejs :: str where
  "nodejs = win [''C:'', ''Program Files'', ''nodejs'']"

definition docker_bin :: str where
  "docker_bin = win [''C:'', ''Program Files'', ''Docker'', ''Docker'', ''resources'', ''bin'']"

definition vscode_bin :: str where
  "vscode_bin = win [''%USERPROFILE%'', ''AppData'', ''Local'', ''Programs'',
     ''Microsoft VS Code'', ''bin'']"

definition stripe_dir :: str where
  "stripe_dir = win [''%USERPROFILE%'', ''.stripe'']"

definition common_paths :: "(str \<Rightarrow> str) \<Rightarrow> str list" where
  "common_paths ev =
     [azure_cli, azure_cli_x86, nodejs, docker_bin,
      expandvars ev vscode_bin, expandvars ev stripe_dir]"

text \<open>
  The body of the loop over \<open>common_paths\<close>, after the expansion of the entry: the
  directory is put in front of the PATH value, with a semicolon, when \<open>os.path.exists\<close>
  holds of it and it is not a substring of the value.
\<close>

definition prepend_if_missing :: "(str \<Rightarrow> bool) \<Rightarrow> str \<Rightarrow> str \<Rightarrow> str" where
  "prepend_if_missing path_exists expanded_path windows_path =
     (if path_exists expanded_path \<and> \<not> str_in expanded_path windows_path
      then expanded_path @ lit '';'' @ windows_path
      else windows_path)"

fun add_common_paths :: "(str \<Rightarrow> bool) \<Rightarrow> (str \<Rightarrow> str) \<Rightarrow> str list \<Rightarrow> str \<Rightarrow> str" where
  "add_common_paths path_exists ev [] windows_path = windows_path"
| "add_common_paths path_exists ev (path # paths) windows_path =
     add_common_paths path_exists ev paths
       (prepend_if_missing path_exists (expandvars ev path) windows_path)"

text \<open>
  The directories that the loop puts in front of the PATH value, in the order in which
  it does so.
\<close>

fun prepended :: "(str \<Rightarrow> bool) \<Rightarrow> (str \<Rightarrow> str) \<Rightarrow> str list \<Rightarrow> str \<Rightarrow> str list" where
  "prepended path_exists ev [] windows_path = []"
| "prepended path_exists ev (path # paths) windows_path =
     (if path_exists (expandvars ev path) \<and> \<not> str_in (expandvars ev path) windows_path
      then expandvars ev path #
        prepended path_exists ev paths (expandvars ev path @ lit '';'' @ windows_path)
      else prepended path_exists ev paths windows_path)"



text \<open>A PATH value made of the given directories, each followed by a semicolon.\<close>

definition path_entries :: "str list \<Rightarrow> str" where
  "path_entries ds = concat (map (\<lambda>d. d @ lit '';'') ds)"

text \<open>A disk that holds the Azure CLI and Node.js directories and no other.\<close>

definition two_tools_on_disk :: "str \<Rightarrow> bool" where
  "two_tools_on_disk p = (p = azure_cli \<or> p = nodejs)"


text \<open>
  The words of the specification: a directory is closer to the front of a PATH value
  than another when both occur in it and the first occurs at a smaller position.
\<close>

definition closer_to_front :: "str \<Rightarrow> str \<Rightarrow> str \<Rightarrow> bool" where
  "closer_to_front a b path_value =
     (case str_find a path_value of
        None \<Rightarrow> False
      | Some i \<Rightarrow> (case str_find b path_value of None \<Rightarrow> False | Some j \<Rightarrow> i < j))"

definition no_expansion :: "str \<Rightarrow> str" where
  "no_expansion p = p"

definition windows_dir :: str where
  "windows_dir = win [''C:'', ''Windows'']"

section \<open>Exceptions\<close>

text \<open>
  The classes that the handlers of \<open>run_validation\<close> and of the stdbuf probe tell apart.
  \<open>FileNotFoundError\<close> and \<open>PermissionError\<close> are subclasses of \<open>OSError\<close>, and
  \<open>UnicodeDecodeError\<close> of \<open>ValueError\<close>; \<open>OSError\<close> and \<open>ValueError\<close> stand for their
  other instances. \<open>TimeoutExpired\<close> and \<open>OtherException\<close> are caught by none of the
  three outer handlers.
\<close>

datatype exc_class =
  FileNotFoundError | PermissionError | OSError | RuntimeError | ValueError
  | UnicodeDecodeError | TimeoutExpired | OtherException

text \<open>
  An exception: its class, \<open>type(e).__name__\<close>, \<open>str(e)\<close> and the text that
  \<open>traceback.format_exc()\<close> gives while it is handled.
\<close>

record exc =
  exc_class :: exc_class
  type_name :: str
  message :: str
  trace :: str

section \<open>Relaying the two output streams\<close>

text \<open>
  \<open>SUBPROCESS_ENCODING\<close> and \<open>SUBPROCESS_ERROR_HANDLING\<close> belong to the constants package,
  which is not among the sources, and the codecs are Python's. The reader takes the two
  calls of \<open>bytes.decode\<close> as they come: \<open>decode_strict\<close> is
  \<open>line_bytes.decode(SUBPROCESS_ENCODING)\<close> and \<open>decode_handled\<close> is
  \<open>line_bytes.decode(SUBPROCESS_ENCODING, errors=SUBPROCESS_ERROR_HANDLING)\<close>, each with
  the exception it raises on the left.
\<close>

record codec =
  decode_strict :: "bytes \<Rightarrow> exc + str"
  decode_handled :: "bytes \<Rightarrow> exc + str"

text \<open>
  How a codec of Python decodes. It goes through the octets from the left: at each
  position it either decodes the next octets into text or finds that they are invalid.
  \<open>Decoded t n\<close> says that the next \<open>n + 1\<close> octets give the text \<open>t\<close>, \<open>Invalid n e\<close> that the
  next \<open>n + 1\<close> octets are invalid and that \<open>e\<close> describes the error. At an invalid
  sequence the error handling decides: \<open>strict\<close> raises the \<open>UnicodeDecodeError\<close>,
  \<open>ignore\<close> drops the octets, \<open>replace\<close> puts U+FFFD (65533) in their place; the last
  two go on behind the sequence. Which octets a codec takes to be valid is the scanner, a
  parameter: it stands for \<open>SUBPROCESS_ENCODING\<close>.
\<close>

datatype scanned = Decoded str nat | Invalid nat exc

type_synonym scanner = "nat \<Rightarrow> bytes \<Rightarrow> scanned"

datatype error_handling = Strict | Ignore | Replace

function decode :: "scanner \<Rightarrow> error_handling \<Rightarrow> nat \<Rightarrow> bytes \<Rightarrow> exc + str" where
  "decode sc errors pos [] = Inr []"
| "decode sc errors pos (x # xs) =
     (case sc pos (x # xs) of
        Decoded t n \<Rightarrow>
          (case decode sc errors (pos + Suc n) (drop n xs) of
             Inl e \<Rightarrow> Inl e
           | Inr r \<Rightarrow> Inr (t @ r))
      | Invalid n e \<Rightarrow>
          (case errors of
             Strict \<Rightarrow> Inl (e\<lparr>exc_class := UnicodeDecodeError\<rparr>)
           | Ignore \<Rightarrow> decode sc errors (pos + Suc n) (drop n xs)
           | Replace \<Rightarrow>
               (case decode sc errors (pos + Suc n) (drop n xs) of
                  Inl e' \<Rightarrow> Inl e'
                | Inr r \<Rightarrow> Inr (65533 # r))))"
  by pat_completeness auto
termination
  by (relation "measure (\<lambda>(sc, errors, pos, b). length b)") auto

text \<open>
  Modelled from the spec: \<open>SUBPROCESS_ERROR_HANDLING\<close> of the constants package, which is
  not among the sources. The specification has the invalid bytes of a malformed line
  substituted by a replacement marker instead of the run aborted; that is the error
  handling \<open>replace\<close>.
\<close>

definition SUBPROCESS_ERROR_HANDLING :: error_handling where
  "SUBPROCESS_ERROR_HANDLING = Replace"

text \<open>The two calls of \<open>bytes.decode\<close> in \<open>read_stream\<close>, for the codec of a scanner.\<close>

definition codec_of :: "scanner \<Rightarrow> codec" where
  "codec_of sc =
     \<lparr>decode_strict = decode sc Strict 0,
      decode_handled = decode sc SUBPROCESS_ERROR_HANDLING 0\<rparr>"

text \<open>\<open>s.rstrip("\n\r")\<close>: every trailing line feed (10) and carriage return (13) goes.\<close>

definition rstrip_nl :: "str \<Rightarrow> str" where
  "rstrip_nl s = rev (dropWhile (\<lambda>ch. ch = 10 \<or> ch = 13) (rev s))"

text \<open>The \<open>try\<close>/\<open>except UnicodeDecodeError\<close> of \<open>read_stream\<close>.\<close>

definition decode_line :: "codec \<Rightarrow> bytes \<Rightarrow> exc + str" where
  "decode_line cd line_bytes =
     (case decode_strict cd line_bytes of
        Inr s \<Rightarrow> Inr (rstrip_nl s)
      | Inl e \<Rightarrow>
          if exc_class e = UnicodeDecodeError
          then (case decode_handled cd line_bytes of
                  Inr s \<Rightarrow> Inr (rstrip_nl s)
                | Inl e' \<Rightarrow> Inl e')
          else Inl e)"

text \<open>
  The output log is the list of the lines given to \<open>log.write_line\<close>. An entry holds
  the text of the line; its constructor records which statement wrote it: \<open>Relay\<close> the
  one of \<open>read_stream\<close> (line 257), \<open>Status\<close> the three of lines 274 to 278, \<open>Report\<close>
  those of the script check and of the handlers, \<open>Plain\<close> all others.
\<close>

datatype entry = Plain str | Relay str | Status str | Report str

fun text_of :: "entry \<Rightarrow> str" where
  "text_of (Plain t) = t"
| "text_of (Relay t) = t"
| "text_of (Status t) = t"
| "text_of (Report t) = t"

fun is_status :: "entry \<Rightarrow> bool" where
  "is_status (Status t) = True"
| "is_status x = False"

text \<open>\<open>if line: log.write_line(f"{prefix}{line}")\<close>.\<close>

definition relay_line :: "str \<Rightarrow> str \<Rightarrow> entry list \<Rightarrow> entry list" where
  "relay_line pfx line log = (if line \<noteq> [] then log @ [Relay (pfx @ line)] else log)"

text \<open>
  A stream is given by the successive non-final results of \<open>stream.readline()\<close> and by
  how the reads end: with the empty result of end of input (\<open>None\<close>) or with an exception.
  The loop also leaves at an empty result inside the list, as the source does. The result
  is the log and the exception that leaves the coroutine, if any.
\<close>

fun read_stream :: "codec \<Rightarrow> str \<Rightarrow> bytes list \<Rightarrow> exc option \<Rightarrow> entry list
    \<Rightarrow> entry list \<times> exc option" where
  "read_stream cd pfx [] ending log = (log, ending)"
| "read_stream cd pfx (line_bytes # rest) ending log =
     (if line_bytes = [] then (log, None)
      else case decode_line cd line_bytes of
             Inl e \<Rightarrow> (log, Some e)
           | Inr line \<Rightarrow> read_stream cd pfx rest ending (relay_line pfx line log))"

text \<open>The prefix of the stderr reader: U+26A0, U+FE0F, two spaces, \<open>STDERR: \<close>.\<close>

definition stderr_prefix :: str where
  "stderr_prefix = [9888, 65039] @ lit ''  STDERR: ''"

text \<open>
  \<open>asyncio.gather\<close> of the two readers. The readers take turns at their \<open>await\<close>, one
  iteration of the loop at a time, in an order that depends on when the child writes:
  the schedule says whose turn it is (\<open>True\<close> for stdout). A reader that ends leaves
  the other one to run alone; the first exception leaves \<open>gather\<close> at once, with the
  log as it is then. When the schedule is used up, stdout is read to its end and then
  stderr.
\<close>

fun gather :: "codec \<Rightarrow> bool list \<Rightarrow> bytes list \<Rightarrow> exc option \<Rightarrow> bytes list \<Rightarrow> exc option
    \<Rightarrow> entry list \<Rightarrow> entry list \<times> exc option" where
  "gather cd [] out out_end err err_end log =
     (case read_stream cd [] out out_end log of
        (log', None) \<Rightarrow> read_stream cd stderr_prefix err err_end log'
      | (log', Some e) \<Rightarrow> (log', Some e))"
| "gather cd (True # sched) [] out_end err err_end log =
     (case out_end of
        None \<Rightarrow> read_stream cd stderr_prefix err err_end log
      | Some e \<Rightarrow> (log, Some e))"
| "gather cd (True # sched) (line_bytes # rest) out_end err err_end log =
     (if line_bytes = [] then read_stream cd stderr_prefix err err_end log
      else case decode_line cd line_bytes of
             Inl e \<Rightarrow> (log, Some e)
           | Inr line \<Rightarrow> gather cd sched rest out_end err err_end (relay_line [] line log))"
| "gather cd (False # sched) out out_end [] err_end log =
     (case err_end of
        None \<Rightarrow> read_stream cd [] out out_end log
      | Some e \<Rightarrow> (log, Some e))"
| "gather cd (False # sched) out out_end (line_bytes # rest) err_end log =
     (if line_bytes = [] then read_stream cd [] out out_end log
      else case decode_line cd line_bytes of
             Inl e \<Rightarrow> (log, Some e)
           | Inr line \<Rightarrow>
               gather cd sched out out_end rest err_end (relay_line stderr_prefix line log))"

text \<open>
  \<open>asyncio.gather\<close> does not cancel the other reader when one of the two raises: that
  reader goes on with its loop. A reader is given by its prefix, the reads it has still
  to make and how they end. \<open>pending\<close> is the other reader at the moment \<open>gather\<close> raises,
  if it has not ended by then; it follows \<open>gather\<close> equation by equation.
\<close>

type_synonym reader = "str \<times> bytes list \<times> exc option"

fun pending :: "codec \<Rightarrow> bool list \<Rightarrow> bytes list \<Rightarrow> exc option \<Rightarrow> bytes list \<Rightarrow> exc option
    \<Rightarrow> reader option" where
  "pending cd [] out out_end err err_end =
     (case snd (read_stream cd [] out out_end []) of
        None \<Rightarrow> None
      | Some e \<Rightarrow> Some (stderr_prefix, err, err_end))"
| "pending cd (True # sched) [] out_end err err_end =
     (case out_end of
        None \<Rightarrow> None
      | Some e \<Rightarrow> Some (stderr_prefix, err, err_end))"
| "pending cd (True # sched) (line_bytes # rest) out_end err err_end =
     (if line_bytes = [] then None
      else case decode_line cd line_bytes of
             Inl e \<Rightarrow> Some (stderr_prefix, err, err_end)
           | Inr line \<Rightarrow> pending cd sched rest out_end err err_end)"
| "pending cd (False # sched) out out_end [] err_end =
     (case err_end of
        None \<Rightarrow> None
      | Some e \<Rightarrow> Some ([], out, out_end))"
| "pending cd (False # sched) out out_end (line_bytes # rest) err_end =
     (if line_bytes = [] then None
      else case decode_line cd line_bytes of
             Inl e \<Rightarrow> Some ([], out, out_end)
           | Inr line \<Rightarrow> pending cd sched out out_end rest err_end)"

text \<open>
  The reader that is left running makes some iterations of its loop before the task of
  \<open>run_validation\<close> is resumed with the exception, and the others afterwards. \<open>advance\<close>
  is the log and the reader after that many iterations; an exception that ends this
  reader is retrieved by nobody. \<open>finish\<close> is what the reader writes from there on.
\<close>

fun advance :: "codec \<Rightarrow> nat \<Rightarrow> reader \<Rightarrow> entry list \<Rightarrow> entry list \<times> reader" where
  "advance cd 0 r log = (log, r)"
| "advance cd (Suc n) (pfx, [], ending) log = (log, (pfx, [], None))"
| "advance cd (Suc n) (pfx, line_bytes # rest, ending) log =
     (if line_bytes = [] then (log, (pfx, [], None))
      else case decode_line cd line_bytes of
             Inl e \<Rightarrow> (log, (pfx, [], None))
           | Inr line \<Rightarrow> advance cd n (pfx, rest, ending) (relay_line pfx line log))"

fun finish :: "codec \<Rightarrow> reader \<Rightarrow> entry list" where
  "finish cd (pfx, lines, ending) = fst (read_stream cd pfx lines ending [])"

text \<open>
  The text of a raw line as the reader sees it, and what a reader writes for a list of
  raw lines that all decode: the prefixed texts of those that are not empty.
\<close>

definition line_text :: "codec \<Rightarrow> bytes \<Rightarrow> str" where
  "line_text cd line_bytes = (case decode_line cd line_bytes of Inr s \<Rightarrow> s | Inl e \<Rightarrow> [])"

definition decodes :: "codec \<Rightarrow> bytes \<Rightarrow> bool" where
  "decodes cd line_bytes = (line_bytes \<noteq> [] \<and> \<not> isl (decode_line cd line_bytes))"

definition relayed :: "codec \<Rightarrow> str \<Rightarrow> bytes list \<Rightarrow> entry list" where
  "relayed cd pfx lines =
     map (\<lambda>t. Relay (pfx @ t)) (filter (\<lambda>t. t \<noteq> []) (map (line_text cd) lines))"

text \<open>
  A raw line that is empty once decoded and stripped, and a stream without such lines.
\<close>

definition blank_line :: "codec \<Rightarrow> bytes \<Rightarrow> bool" where
  "blank_line cd line_bytes = (line_bytes \<noteq> [] \<and> decode_line cd line_bytes = Inr [])"

definition without_blanks :: "codec \<Rightarrow> bytes list \<Rightarrow> bytes list" where
  "without_blanks cd lines = filter (\<lambda>b. \<not> blank_line cd b) lines"

text \<open>
  The words of the specification: a line without its terminator, the terminator being
  one of CR LF, LF and CR.
\<close>

definition strip_terminator_rev :: "str \<Rightarrow> str" where
  "strip_terminator_rev r =
     (case r of
        [] \<Rightarrow> []
      | x # s \<Rightarrow>
          if x = 10 then (case s of [] \<Rightarrow> [] | y # t \<Rightarrow> if y = 13 then t else s)
          else if x = 13 then s
          else r)"

definition strip_terminator :: "str \<Rightarrow> str" where
  "strip_terminator s = rev (strip_terminator_rev (rev s))"

section \<open>The constants package\<close>

text \<open>
  \<open>run_validation\<close> imports its messages, the bash flags and the script path from the
  constants package, which is not among the sources: they are the fields of a record that
  every definition below takes as its parameter \<open>c\<close>. A message that the source passes
  through \<open>str.format\<close> with one argument is given in parsed form, as literal text and
  replacement fields for that argument.
\<close>

datatype piece = Text str | Field

type_synonym template = "piece list"

fun render :: "str \<Rightarrow> piece \<Rightarrow> str" where
  "render arg (Text t) = t"
| "render arg Field = arg"

definition format_msg :: "template \<Rightarrow> str \<Rightarrow> str" where
  "format_msg tpl arg = concat (map (render arg) tpl)"

record constants =
  MSG_RUNNING_VALIDATION :: str
  MSG_VALIDATION_SUCCESS :: str
  MSG_VALIDATION_WARNINGS :: str
  MSG_VALIDATION_FAILED :: template
  ERR_SCRIPT_NOT_FOUND :: template
  ERR_BASH_NOT_FOUND :: str
  ERR_BASH_HINT :: str
  ERR_PERMISSION_DENIED :: str
  ERR_PERMISSION_HINT :: template
  ERR_UNEXPECTED :: template
  SEPARATOR :: str
  VALIDATION_SCRIPT_PATH :: str
  BASH_FLAGS :: "str list"

text \<open>
  Modelled from the spec: \<open>EXIT_CODE_SUCCESS\<close> and \<open>EXIT_CODE_WARNINGS\<close> of the constants
  package, which is not among the sources. The exit code contract of the specification
  is 0 for success and 1 for warnings.
\<close>

definition EXIT_CODE_SUCCESS :: int where
  "EXIT_CODE_SUCCESS = 0"

definition EXIT_CODE_WARNINGS :: int where
  "EXIT_CODE_WARNINGS = 1"

text \<open>\<open>str\<close> of an \<open>int\<close>: decimal digits, with a minus sign below zero.\<close>

fun show_nat :: "nat \<Rightarrow> str" where
  "show_nat n = (if n < 10 then [48 + n] else show_nat (n div 10) @ [48 + n mod 10])"

definition show_int :: "int \<Rightarrow> str" where
  "show_int i = (if i < 0 then 45 # show_nat (nat (- i)) else show_nat (nat i))"

text \<open>The status line that follows the exit code of the child.\<close>

definition status_line :: "constants \<Rightarrow> int \<Rightarrow> str" where
  "status_line c return_code =
     (if return_code = EXIT_CODE_SUCCESS then MSG_VALIDATION_SUCCESS c
      else if return_code = EXIT_CODE_WARNINGS then MSG_VALIDATION_WARNINGS c
      else format_msg (MSG_VALIDATION_FAILED c) (show_int return_code))"

section \<open>The environment of the child\<close>

text \<open>
  A dictionary of environment variables is an object: the heap is the list of the
  dictionaries that exist, an address is an index into it, and \<open>os.environ\<close> is the
  dictionary at address 0. \<open>copy\<close> allocates a new dictionary at the end of the heap and
  an item assignment updates the dictionary at the address it is given.
\<close>

type_synonym environ = "str \<rightharpoonup> str"
type_synonym heap = "environ list"

definition os_environ :: nat where
  "os_environ = 0"

definition dict_copy :: "heap \<Rightarrow> nat \<Rightarrow> nat \<times> heap" where
  "dict_copy h r = (length h, h @ [h ! r])"

definition dict_set :: "heap \<Rightarrow> nat \<Rightarrow> str \<Rightarrow> str \<Rightarrow> heap" where
  "dict_set h r k v = h[r := (h ! r)(k \<mapsto> v)]"

definition dict_get :: "heap \<Rightarrow> nat \<Rightarrow> str \<Rightarrow> str option" where
  "dict_get h r k = (h ! r) k"

text \<open>
  Lines 159 to 199: the copy of \<open>os.environ\<close> and the additions to it. The substitution
  of \<open>os.path.expandvars\<close> reads \<open>os.environ\<close>, so the parameter \<open>expand\<close> takes the
  dictionary at that address. The result is the address of \<open>env\<close> and the heap.
\<close>

definition build_env :: "str \<Rightarrow> (str \<Rightarrow> bool) \<Rightarrow> (environ \<Rightarrow> str \<Rightarrow> str) \<Rightarrow> heap \<Rightarrow> nat \<times> heap" where
  "build_env platform path_exists expand h =
     (case dict_copy h os_environ of
        (env, h1) \<Rightarrow>
          let h2 = dict_set h1 env (lit ''PYTHONUNBUFFERED'') (lit ''1'') in
          if startswith platform (lit ''win'') then
            let h3 = dict_set h2 env (lit ''PYTHONIOENCODING'') (lit ''utf-8'') in
            (case dict_get h3 env (lit ''PATH'') of
               None \<Rightarrow> (env, h3)
             | Some windows_path \<Rightarrow>
                 let h4 = dict_set h3 env (lit ''ORIGINAL_PATH'') windows_path;
                     ev = expand (h4 ! os_environ)
                 in (env, dict_set h4 env (lit ''PATH'')
                       (add_common_paths path_exists ev (common_paths ev) windows_path)))
          else (env, h2))"

section \<open>The command\<close>

text \<open>
  The outcome of \<open>subprocess.run(["which", "stdbuf"], capture_output=True, timeout=1,
  check=False)\<close>: it returns a completed process with the exit code of \<open>which\<close> (0 when
  stdbuf is found, 1 when it is not), or it raises.
\<close>

datatype probe_result = ProbeCompleted int | ProbeRaised exc

text \<open>
  Lines 210 to 220: the inner \<open>try\<close>. Its handler catches \<open>TimeoutExpired\<close> and
  \<open>FileNotFoundError\<close>; any other exception leaves it.
\<close>

definition with_stdbuf :: "probe_result \<Rightarrow> str list \<Rightarrow> exc + str list" where
  "with_stdbuf probe command =
     (case probe of
        ProbeCompleted return_code \<Rightarrow> Inr ([lit ''stdbuf'', lit ''-o0'', lit ''-e0''] @ command)
      | ProbeRaised e \<Rightarrow>
          if exc_class e = TimeoutExpired \<or> exc_class e = FileNotFoundError then Inr command
          else Inl e)"

definition bash_command :: "constants \<Rightarrow> str list" where
  "bash_command c = [lit ''bash''] @ BASH_FLAGS c @ [VALIDATION_SCRIPT_PATH c]"

definition build_command :: "constants \<Rightarrow> str \<Rightarrow> probe_result \<Rightarrow> exc + str list" where
  "build_command c platform probe =
     (if \<not> startswith platform (lit ''win'') then with_stdbuf probe (bash_command c)
      else Inr (bash_command c))"

text \<open>
  The claim of the specification about the probe: stdbuf is put in front exactly when
  the probe finds it, that is when \<open>which\<close> exits with 0.
\<close>

definition stdbuf_found :: "probe_result \<Rightarrow> bool" where
  "stdbuf_found probe = (probe = ProbeCompleted 0)"

section \<open>The run\<close>

text \<open>
  A child process, as the run sees it: the two streams, the order in which the readers
  take their turns, the number of iterations that the reader left running makes between
  an exception of the other reader and the resumption of \<open>run_validation\<close>, and the
  result of \<open>process.wait()\<close>.
\<close>

record process =
  stdout :: "bytes list"
  stdout_end :: "exc option"
  stderr :: "bytes list"
  stderr_end :: "exc option"
  schedule :: "bool list"
  handler_delay :: nat
  wait :: "exc + int"

text \<open>
  What the run reads from its host: \<open>sys.platform\<close>, the first word of \<open>sys.version\<close>,
  the path built at lines 148 and 149 as text, the outcome of \<open>script_path.exists()\<close>
  (pathlib returns a truth value or raises again an \<open>OSError\<close> that it does not take for
  a missing file, such as a \<open>PermissionError\<close>), the project root, \<open>os.path.exists\<close>, the
  substitution of \<open>os.path.expandvars\<close>, the outcome of the stdbuf probe, what
  \<open>asyncio.create_subprocess_exec\<close> does with a command, a working directory and an
  environment, and the decoder.
\<close>

record world =
  sys_platform :: str
  python_version :: str
  script_path :: str
  script_exists :: "exc + bool"
  project_root :: str
  os_path_exists :: "str \<Rightarrow> bool"
  expand_subst :: "environ \<Rightarrow> str \<Rightarrow> str"
  which_stdbuf :: probe_result
  create_subprocess_exec :: "str list \<Rightarrow> str \<Rightarrow> environ \<Rightarrow> exc + process"
  decoder :: codec

text \<open>
  What the run leaves behind: the output log (the run clears it first), the heap, the
  number of probes run, the calls of \<open>create_subprocess_exec\<close> with their command,
  working directory and environment, the exception that leaves \<open>run_validation\<close>, if
  any, and the lines that a reader left running writes to the log after
  \<open>run_validation\<close> has returned.
\<close>

record outcome =
  log :: "entry list"
  heap_after :: heap
  probes :: nat
  launches :: "(str list \<times> str \<times> environ) list"
  raised :: "exc option"
  late :: "entry list"

text \<open>Lines 136 to 145, after \<open>log.clear()\<close>. The fifth line starts with U+1F50D.\<close>

definition preamble :: "constants \<Rightarrow> world \<Rightarrow> entry list" where
  "preamble c w =
     [Plain (SEPARATOR c), Plain (MSG_RUNNING_VALIDATION c), Plain (SEPARATOR c), Plain [],
      Plain (128269 # lit '' Environment Diagnostics:''),
      Plain (lit ''   OS: '' @ sys_platform w),
      Plain (lit ''   Python: '' @ python_version w),
      Plain []]"

text \<open>\<open>s.split("\n")\<close>.\<close>

fun split_lines :: "str \<Rightarrow> str list" where
  "split_lines [] = [[]]"
| "split_lines (x # xs) =
     (if x = 10 then [] # split_lines xs
      else (case split_lines xs of
              [] \<Rightarrow> [[x]]
            | l # ls \<Rightarrow> (x # l) # ls))"

text \<open>\<open>ch.isspace()\<close>, the characters that \<open>str.strip()\<close> removes.\<close>

definition isspace :: "nat \<Rightarrow> bool" where
  "isspace ch =
     ((9 \<le> ch \<and> ch \<le> 13) \<or> (28 \<le> ch \<and> ch \<le> 32) \<or> ch = 133 \<or> ch = 160 \<or> ch = 5760
      \<or> (8192 \<le> ch \<and> ch \<le> 8202) \<or> ch = 8232 \<or> ch = 8233 \<or> ch = 8239 \<or> ch = 8287
      \<or> ch = 12288)"

text \<open>Lines 296 to 300: the lines of the traceback that \<open>strip()\<close> does not empty.\<close>

definition traceback_lines :: "str \<Rightarrow> str list" where
  "traceback_lines tb =
     map (\<lambda>line. lit ''   '' @ line)
       (filter (\<lambda>line. list_ex (\<lambda>ch. \<not> isspace ch) line) (split_lines tb))"

text \<open>The lines that each of the three handlers writes (lines 283 to 300).\<close>

definition bash_not_found_report :: "constants \<Rightarrow> entry list" where
  "bash_not_found_report c = [Report (ERR_BASH_NOT_FOUND c), Report (ERR_BASH_HINT c)]"

definition permission_report :: "constants \<Rightarrow> world \<Rightarrow> entry list" where
  "permission_report c w =
     [Report (ERR_PERMISSION_DENIED c),
      Report (format_msg (ERR_PERMISSION_HINT c) (script_path w))]"

definition unexpected_report :: "constants \<Rightarrow> exc \<Rightarrow> entry list" where
  "unexpected_report c e =
     [Report (format_msg (ERR_UNEXPECTED c) (type_name e)),
      Report (lit ''   '' @ message e),
      Report [],
      Report (lit ''Full traceback:'')]
     @ map Report (traceback_lines (trace e))"

text \<open>
  Lines 281 to 300: the three handlers, in their order. The result is the log and the
  exception when no handler catches it.
\<close>

definition handlers :: "constants \<Rightarrow> world \<Rightarrow> exc \<Rightarrow> entry list \<Rightarrow> entry list \<times> exc option" where
  "handlers c w e lg =
     (if exc_class e = FileNotFoundError then (lg @ bash_not_found_report c, None)
      else if exc_class e = PermissionError then (lg @ permission_report c w, None)
      else if exc_class e = OSError \<or> exc_class e = RuntimeError \<or> exc_class e = ValueError
              \<or> exc_class e = UnicodeDecodeError then (lg @ unexpected_report c e, None)
      else (lg, Some e))"

text \<open>Lines 267 to 279: the four lines written after \<open>process.wait()\<close> returns.\<close>

definition completion :: "constants \<Rightarrow> int \<Rightarrow> entry list" where
  "completion c return_code =
     [Plain [], Plain (SEPARATOR c), Status (status_line c return_code), Plain (SEPARATOR c)]"

text \<open>
  Lines 226 to 279, from the call of \<open>create_subprocess_exec\<close> on: the log and the
  exception raised there, if any. When a reader raises, the log is the one at the
  resumption of \<open>run_validation\<close>.
\<close>

definition launch_and_relay :: "constants \<Rightarrow> world \<Rightarrow> str list \<Rightarrow> environ \<Rightarrow> entry list
    \<Rightarrow> entry list \<times> exc option" where
  "launch_and_relay c w command env lg =
     (case create_subprocess_exec w command (project_root w) env of
        Inl e \<Rightarrow> (lg, Some e)
      | Inr p \<Rightarrow>
          (case gather (decoder w) (schedule p) (stdout p) (stdout_end p)
                  (stderr p) (stderr_end p) lg of
             (lg', Some e) \<Rightarrow>
               (case pending (decoder w) (schedule p) (stdout p) (stdout_end p)
                       (stderr p) (stderr_end p) of
                  None \<Rightarrow> (lg', Some e)
                | Some r \<Rightarrow> (fst (advance (decoder w) (handler_delay p) r lg'), Some e))
           | (lg', None) \<Rightarrow>
               (case wait p of
                  Inl e \<Rightarrow> (lg', Some e)
                | Inr return_code \<Rightarrow> (lg' @ completion c return_code, None))))"

text \<open>
  What the reader left running writes after \<open>run_validation\<close> has returned: nothing
  unless a reader has raised while the other had not ended.
\<close>

definition relayed_late :: "world \<Rightarrow> str list \<Rightarrow> environ \<Rightarrow> entry list" where
  "relayed_late w command env =
     (case create_subprocess_exec w command (project_root w) env of
        Inl e \<Rightarrow> []
      | Inr p \<Rightarrow>
          (case snd (gather (decoder w) (schedule p) (stdout p) (stdout_end p)
                       (stderr p) (stderr_end p) []) of
             None \<Rightarrow> []
           | Some e \<Rightarrow>
               (case pending (decoder w) (schedule p) (stdout p) (stdout_end p)
                       (stderr p) (stderr_end p) of
                  None \<Rightarrow> []
                | Some r \<Rightarrow>
                    finish (decoder w) (snd (advance (decoder w) (handler_delay p) r [])))))"

text \<open>The environment handed to the child: the dictionary \<open>env\<close> after lines 159 to 199.\<close>

definition child_env :: "world \<Rightarrow> heap \<Rightarrow> environ" where
  "child_env w h =
     (case build_env (sys_platform w) (os_path_exists w) (expand_subst w) h of
        (env, h') \<Rightarrow> h' ! env)"

text \<open>
  The \<open>try\<close> block, lines 157 to 279: the log and the exception that it raises, if any.
\<close>

definition try_block :: "constants \<Rightarrow> world \<Rightarrow> heap \<Rightarrow> entry list \<times> exc option" where
  "try_block c w h =
     (case build_command c (sys_platform w) (which_stdbuf w) of
        Inl e \<Rightarrow> (preamble c w, Some e)
      | Inr command \<Rightarrow> launch_and_relay c w command (child_env w h) (preamble c w))"

text \<open>The calls of \<open>create_subprocess_exec\<close> that the \<open>try\<close> block makes.\<close>

definition try_launches :: "constants \<Rightarrow> world \<Rightarrow> heap \<Rightarrow> (str list \<times> str \<times> environ) list" where
  "try_launches c w h =
     (case build_command c (sys_platform w) (which_stdbuf w) of
        Inl e \<Rightarrow> []
      | Inr command \<Rightarrow> [(command, project_root w, child_env w h)])"

text \<open>What is written to the log after the \<open>try\<close> block has been left.\<close>

definition try_late :: "constants \<Rightarrow> world \<Rightarrow> heap \<Rightarrow> entry list" where
  "try_late c w h =
     (case build_command c (sys_platform w) (which_stdbuf w) of
        Inl e \<Rightarrow> []
      | Inr command \<Rightarrow> relayed_late w command (child_env w h))"

text \<open>Where the result of the \<open>try\<close> block goes: an exception goes to the handlers.\<close>

definition handled :: "constants \<Rightarrow> world \<Rightarrow> entry list \<times> exc option \<Rightarrow> entry list \<times> exc option" where
  "handled c w r =
     (case r of
        (lg, None) \<Rightarrow> (lg, None)
      | (lg, Some e) \<Rightarrow> handlers c w e lg)"

text \<open>
  The existence check of line 152 is outside the \<open>try\<close> block: an exception that it
  raises leaves \<open>run_validation\<close> with nothing written but the opening lines.
\<close>

definition run_validation :: "constants \<Rightarrow> world \<Rightarrow> heap \<Rightarrow> outcome" where
  "run_validation c w h =
     (case script_exists w of
        Inl e \<Rightarrow>
          \<lparr>log = preamble c w, heap_after = h, probes = 0, launches = [], raised = Some e,
           late = []\<rparr>
      | Inr False \<Rightarrow>
          \<lparr>log = preamble c w
             @ [Report (format_msg (ERR_SCRIPT_NOT_FOUND c) (script_path w))],
           heap_after = h, probes = 0, launches = [], raised = None, late = []\<rparr>
      | Inr True \<Rightarrow>
          \<lparr>log = fst (handled c w (try_block c w h)),
           heap_after = snd (build_env (sys_platform w) (os_path_exists w) (expand_subst w) h),
           probes = (if startswith (sys_platform w) (lit ''win'') then 0 else 1),
           launches = try_launches c w h,
           raised = snd (handled c w (try_block c w h)),
           late = try_late c w h\<rparr>)"

section \<open>Where a run can fail\<close>

text \<open>
  The process that the run has launched, if the probe and the launch raise nothing.
\<close>

definition launched :: "constants \<Rightarrow> world \<Rightarrow> heap \<Rightarrow> process option" where
  "launched c w h =
     (case build_command c (sys_platform w) (which_stdbuf w) of
        Inl e \<Rightarrow> None
      | Inr command \<Rightarrow>
          (case create_subprocess_exec w command (project_root w) (child_env w h) of
             Inl e \<Rightarrow> None
           | Inr p \<Rightarrow> Some p))"





section \<open>Concrete runs\<close>

text \<open>
  Values for the absent constants, a child process and hosts, on which the theorems
  below are instantiated. ASCII octets are written with \<open>enc\<close>.
\<close>

definition enc :: "string \<Rightarrow> bytes" where
  "enc s = map of_char s"

text \<open>
  Python's \<open>ascii\<close> codec: an octet below 128 is its own code point and any other is
  invalid, one octet at a time. The message of the error names the octet in two
  hexadecimal digits and its position.
\<close>

definition hex_digit :: "nat \<Rightarrow> nat" where
  "hex_digit d = (if d < 10 then 48 + d else 87 + d)"

definition ascii_decode_error :: "8 word \<Rightarrow> nat \<Rightarrow> exc" where
  "ascii_decode_error x pos =
     \<lparr>exc_class = UnicodeDecodeError, type_name = lit ''UnicodeDecodeError'',
      message = [39] @ lit ''ascii'' @ [39] @ lit '' codec can't decode byte 0x''
        @ [hex_digit (unat x div 16), hex_digit (unat x mod 16)]
        @ lit '' in position '' @ show_nat pos @ lit '': ordinal not in range(128)'',
      trace = lit ''Traceback (most recent call last):'' @ [10]
        @ lit ''UnicodeDecodeError: ordinal not in range(128)'' @ [10]\<rparr>"

fun ascii_scan :: scanner where
  "ascii_scan pos [] = Decoded [] 0"
| "ascii_scan pos (x # xs) =
     (if unat x < 128 then Decoded [unat x] 0 else Invalid 0 (ascii_decode_error x pos))"

definition ascii_codec :: codec where
  "ascii_codec = codec_of ascii_scan"

definition demo_constants :: constants where
  "demo_constants =
     \<lparr>MSG_RUNNING_VALIDATION = lit ''Running validation'',
      MSG_VALIDATION_SUCCESS = lit ''Validation passed'',
      MSG_VALIDATION_WARNINGS = lit ''Validation passed with warnings'',
      MSG_VALIDATION_FAILED = [Text (lit ''Validation failed with exit code ''), Field],
      ERR_SCRIPT_NOT_FOUND = [Text (lit ''Script not found: ''), Field],
      ERR_BASH_NOT_FOUND = lit ''bash not found'',
      ERR_BASH_HINT = lit ''Install bash and add it to PATH'',
      ERR_PERMISSION_DENIED = lit ''Permission denied'',
      ERR_PERMISSION_HINT = [Text (lit ''Try: chmod +x ''), Field],
      ERR_UNEXPECTED = [Text (lit ''Unexpected error: ''), Field],
      SEPARATOR = lit ''====='',
      VALIDATION_SCRIPT_PATH = lit ''scripts/deploy/validate.sh'',
      BASH_FLAGS = [lit ''-l'']\<rparr>"

text \<open>
  A child that writes \<open>ok\<close>, an empty line and a line with the octet 255 on stdout, writes
  \<open>warn\<close> with CR LF on stderr, and exits with 2.
\<close>

definition demo_process :: process where
  "demo_process =
     \<lparr>stdout = [enc ''ok'' @ [10], [10], [255, 10]], stdout_end = None,
      stderr = [enc ''warn'' @ [13, 10]], stderr_end = None,
      schedule = [True, False, True], handler_delay = 0,
      wait = Inr 2\<rparr>"

definition always_launches :: "str list \<Rightarrow> str \<Rightarrow> environ \<Rightarrow> exc + process" where
  "always_launches command cwd env = Inr demo_process"

definition everything_exists :: "str \<Rightarrow> bool" where
  "everything_exists p = True"

definition keep_text :: "environ \<Rightarrow> str \<Rightarrow> str" where
  "keep_text env p = p"

definition linux_host :: world where
  "linux_host =
     \<lparr>sys_platform = lit ''linux'', python_version = lit ''3.11.4'',
      script_path = lit ''/repo/scripts/deploy/validate.sh'', script_exists = Inr True,
      project_root = lit ''/repo'', os_path_exists = everything_exists, expand_subst = keep_text,
      which_stdbuf = ProbeCompleted 0, create_subprocess_exec = always_launches,
      decoder = ascii_codec\<rparr>"

definition host_without_script :: world where
  "host_without_script = linux_host\<lparr>script_exists := Inr False\<rparr>"

text \<open>
  A host on which \<open>which\<close> runs and does not find stdbuf, and on which a command that
  starts with \<open>stdbuf\<close> cannot be launched for that reason.
\<close>

definition file_not_found :: exc where
  "file_not_found =
     \<lparr>exc_class = FileNotFoundError, type_name = lit ''FileNotFoundError'',
      message = lit ''No such file or directory'', trace = lit ''FileNotFoundError''\<rparr>"

definition launches_without_stdbuf :: "str list \<Rightarrow> str \<Rightarrow> environ \<Rightarrow> exc + process" where
  "launches_without_stdbuf command cwd env =
     (case command of
        [] \<Rightarrow> Inl file_not_found
      | program # args \<Rightarrow>
          if program = lit ''stdbuf'' then Inl file_not_found else Inr demo_process)"

definition host_without_stdbuf :: world where
  "host_without_stdbuf =
     linux_host\<lparr>which_stdbuf := ProbeCompleted 1,
       create_subprocess_exec := launches_without_stdbuf\<rparr>"






text \<open>
  A child whose stdout breaks after the line \<open>ok\<close> while stderr has the lines \<open>warn\<close> and
  \<open>more\<close> to give, the first of them before \<open>run_validation\<close> is resumed.
\<close>

definition connection_reset :: exc where
  "connection_reset =
     \<lparr>exc_class = OSError, type_name = lit ''ConnectionResetError'',
      message = lit ''Connection lost'', trace = lit ''ConnectionResetError: Connection lost''\<rparr>"

definition broken_process :: process where
  "broken_process =
     \<lparr>stdout = [enc ''ok'' @ [10]], stdout_end = Some connection_reset,
      stderr = [enc ''warn'' @ [10], enc ''more'' @ [10]], stderr_end = None,
      schedule = [True], handler_delay = 1,
      wait = Inr 0\<rparr>"

definition launches_broken :: "str list \<Rightarrow> str \<Rightarrow> environ \<Rightarrow> exc + process" where
  "launches_broken command cwd env = Inr broken_process"

definition host_broken_pipe :: world where
  "host_broken_pipe = linux_host\<lparr>create_subprocess_exec := launches_broken\<rparr>"

text \<open>
  Windows hosts and a host environment with a PATH. On the second host the Node.js
  directory is the only directory of the fixed list that is on disk.
\<close>

definition windows_host :: world where
  "windows_host =
     linux_host\<lparr>sys_platform := lit ''win32'', os_path_exists := everything_exists\<rparr>"


definition host_environ :: environ where
  "host_environ = [lit ''PATH'' \<mapsto> windows_dir]"

definition host_heap :: heap where
  "host_heap = [host_environ]"

section \<open>Facts about text\<close>








section \<open>Facts about the PATH loop\<close>

lemma add_common_paths_prepended:
  "add_common_paths path_exists ev paths windows_path =
     path_entries (rev (prepended path_exists ev paths windows_path)) @ windows_path"
  by (induction paths arbitrary: windows_path)
    (simp_all add: path_entries_def prepend_if_missing_def)

lemma prepended_subseq:
  "subseq (prepended path_exists ev paths windows_path) (map (expandvars ev) paths)"
  by (induction paths arbitrary: windows_path) (auto intro: list_emb_Cons)

lemma prepended_exist:
  "list_all path_exists (prepended path_exists ev paths windows_path)"
  by (induction paths arbitrary: windows_path) simp_all

lemma format_msg_contains:
  "Field \<in> set tpl \<Longrightarrow> sublist arg (format_msg tpl arg)"
proof (induction tpl)
  case Nil
  then show ?case by simp
next
  case (Cons p tpl)
  show ?case
  proof (cases p)
    case (Text t)
    with Cons have "sublist arg (format_msg tpl arg)" by simp
    then show ?thesis
      by (simp add: format_msg_def Text sublist_append)
  next
    case Field
    then show ?thesis
      by (simp add: format_msg_def sublist_append)
  qed
qed

lemmas path_consts = azure_cli_def azure_cli_x86_def nodejs_def docker_bin_def vscode_bin_def
  stripe_dir_def windows_dir_def lit_def

lemmas host_simps = linux_host_def host_without_script_def everything_exists_def
  demo_constants_def

lemmas ascii_simps = decode_line_def ascii_codec_def codec_of_def
  SUBPROCESS_ERROR_HANDLING_def rstrip_nl_def enc_def lit_def

section \<open>The order of the directories in PATH\<close>

text \<open>
  C4, as the specification states it: of two directories of the fixed list that one run
  puts in front of PATH, the one that comes earlier in the list ends up closer to the
  front. On a disk with the Azure CLI and Node.js directories and a PATH that holds
  neither, the loop adds Azure CLI, the first entry of the list, and then Node.js, the
  third. The result is Node.js, then Azure CLI, then the old value: Azure CLI is not
  closer to the front than Node.js, Node.js is closer to the front than Azure CLI.
\<close>

theorem earlier_entry_behind_later_entry:
  "common_paths no_expansion ! 0 = azure_cli
   \<and> common_paths no_expansion ! 2 = nodejs
   \<and> prepended two_tools_on_disk no_expansion (common_paths no_expansion) windows_dir
       = [azure_cli, nodejs]
   \<and> add_common_paths two_tools_on_disk no_expansion (common_paths no_expansion) windows_dir
       = nodejs @ lit '';'' @ azure_cli @ lit '';'' @ windows_dir
   \<and> \<not> closer_to_front azure_cli nodejs
        (add_common_paths two_tools_on_disk no_expansion (common_paths no_expansion) windows_dir)
   \<and> closer_to_front nodejs azure_cli
        (add_common_paths two_tools_on_disk no_expansion (common_paths no_expansion) windows_dir)"
  by (simp add: common_paths_def expandvars_def prepend_if_missing_def two_tools_on_disk_def
      no_expansion_def closer_to_front_def path_consts)

text \<open>
  C4, amended: the loop takes the directories in the order of the list and puts each
  one it adds in front of the value built so far. The resulting PATH is therefore the
  added directories in the reverse of the list order, each followed by a semicolon, and
  then the old value: a directory that comes later in the list ends up closer to the
  front. The added directories are a subsequence of the expanded list and all exist.
\<close>

theorem later_entries_in_front:
  "add_common_paths path_exists ev paths windows_path =
     path_entries (rev (prepended path_exists ev paths windows_path)) @ windows_path
   \<and> subseq (prepended path_exists ev paths windows_path) (map (expandvars ev) paths)
   \<and> list_all path_exists (prepended path_exists ev paths windows_path)"
  by (simp add: add_common_paths_prepended prepended_subseq prepended_exist)

section \<open>The stdbuf probe\<close>

text \<open>
  C3: on a platform other than Windows, stdbuf is to be put in front of the command
  exactly when the probe finds it. The code puts it in front whenever \<open>which\<close> runs to
  its end, whatever its exit code: on Linux, with \<open>which\<close> exiting with 1 because there
  is no stdbuf, the command still starts with \<open>stdbuf -o0 -e0\<close>.
\<close>

theorem stdbuf_prepended_when_not_found:
  "\<not> stdbuf_found (ProbeCompleted 1) \<and>
   build_command c (lit ''linux'') (ProbeCompleted 1) =
     Inr ([lit ''stdbuf'', lit ''-o0'', lit ''-e0''] @ bash_command c)"
  by (simp add: stdbuf_found_def build_command_def with_stdbuf_def lit_def)

text \<open>
  What follows on such a host: the launch of the command fails for the missing stdbuf,
  and the run reports that bash was not found.
\<close>

lemma run_without_stdbuf:
  "log (run_validation demo_constants host_without_stdbuf host_heap) =
     preamble demo_constants host_without_stdbuf @ bash_not_found_report demo_constants
   \<and> map fst (launches (run_validation demo_constants host_without_stdbuf host_heap)) =
       [[lit ''stdbuf'', lit ''-o0'', lit ''-e0'', lit ''bash'', lit ''-l'',
         lit ''scripts/deploy/validate.sh'']]"
  by (simp add: run_validation_def try_block_def try_launches_def handled_def handlers_def
      launch_and_relay_def build_command_def with_stdbuf_def bash_command_def
      host_without_stdbuf_def launches_without_stdbuf_def file_not_found_def host_simps lit_def)

section \<open>A missing script\<close>

text \<open>
  C5: when the validation script does not exist, the run writes the script-not-found
  message, formatted with the path, after the opening lines and returns: it runs no
  probe, calls \<open>create_subprocess_exec\<close> not once, touches no dictionary and raises
  nothing. The message contains the path when the template has a replacement field.
\<close>

theorem script_not_found_no_spawn:
  assumes "script_exists w = Inr False"
  shows "run_validation c w h =
           \<lparr>log = preamble c w @ [Report (format_msg (ERR_SCRIPT_NOT_FOUND c) (script_path w))],
            heap_after = h, probes = 0, launches = [], raised = None, late = []\<rparr>
         \<and> (Field \<in> set (ERR_SCRIPT_NOT_FOUND c) \<longrightarrow>
              sublist (script_path w) (format_msg (ERR_SCRIPT_NOT_FOUND c) (script_path w)))"
  using assms by (simp add: run_validation_def format_msg_contains)

theorem script_not_found_no_spawn_witness:
  "script_exists host_without_script = Inr False
   \<and> Field \<in> set (ERR_SCRIPT_NOT_FOUND demo_constants)
   \<and> launches (run_validation demo_constants host_without_script host_heap) = []
   \<and> probes (run_validation demo_constants host_without_script host_heap) = 0
   \<and> last (log (run_validation demo_constants host_without_script host_heap)) =
        Report (lit ''Script not found: /repo/scripts/deploy/validate.sh'')"
proof -
  have a: "script_exists host_without_script = Inr False"
    by (simp add: host_simps)
  have b: "Field \<in> set (ERR_SCRIPT_NOT_FOUND demo_constants)"
    by (simp add: host_simps)
  have c: "format_msg (ERR_SCRIPT_NOT_FOUND demo_constants) (script_path host_without_script)
      = lit ''Script not found: /repo/scripts/deploy/validate.sh''"
    by (simp add: host_simps format_msg_def lit_def)
  from script_not_found_no_spawn [OF a, of demo_constants host_heap] a b c show ?thesis
    by simp
qed

section \<open>The environment of the host\<close>

lemma dict_set_last: "dict_set (h @ [d]) (length h) k v = h @ [d(k \<mapsto> v)]"
  by (simp add: dict_set_def)

lemma dict_get_last: "dict_get (h @ [d]) (length h) k = d k"
  by (simp add: dict_get_def)

lemma build_env_frame:
  "\<exists>d. build_env pl ex expd h = (length h, h @ [d])"
  by (simp add: build_env_def dict_copy_def dict_set_last dict_get_last Let_def
      split: option.split)

lemma child_env_unbuffered:
  "child_env w h (lit ''PYTHONUNBUFFERED'') = Some (lit ''1'')"
  by (simp add: child_env_def build_env_def dict_copy_def dict_set_last dict_get_last Let_def
      lit_def split: option.split)

text \<open>
  C10: a run mutates no dictionary that existed before it. Every dictionary of the heap
  is after the run what it was before, \<open>os.environ\<close> at address 0 among them. The
  environment of the child is a new dictionary, at the first address that the heap did
  not have, and the additions are made there: it holds \<open>PYTHONUNBUFFERED\<close>.
\<close>

theorem host_environment_unchanged:
  "take (length h) (heap_after (run_validation c w h)) = h
   \<and> (h \<noteq> [] \<longrightarrow> heap_after (run_validation c w h) ! os_environ = h ! os_environ)
   \<and> fst (build_env (sys_platform w) (os_path_exists w) (expand_subst w) h) = length h
   \<and> child_env w h (lit ''PYTHONUNBUFFERED'') = Some (lit ''1'')"
proof -
  obtain d where
    "build_env (sys_platform w) (os_path_exists w) (expand_subst w) h = (length h, h @ [d])"
    using build_env_frame by blast
  then show ?thesis
    by (cases h)
      (simp_all add: run_validation_def os_environ_def child_env_unbuffered
        split: sum.split bool.split)
qed

theorem host_environment_unchanged_witness:
  "host_heap \<noteq> []
   \<and> heap_after (run_validation demo_constants windows_host host_heap) ! os_environ = host_environ
   \<and> host_environ (lit ''ORIGINAL_PATH'') = None
   \<and> child_env windows_host host_heap (lit ''ORIGINAL_PATH'') = Some windows_dir"
proof -
  have a: "host_heap \<noteq> []" by (simp add: host_heap_def)
  have b: "host_environ (lit ''ORIGINAL_PATH'') = None"
    by (simp add: host_environ_def lit_def)
  have c: "child_env windows_host host_heap (lit ''ORIGINAL_PATH'') = Some windows_dir"
    by (simp add: child_env_def build_env_def dict_copy_def dict_set_def dict_get_def Let_def
        windows_host_def linux_host_def host_heap_def host_environ_def os_environ_def lit_def)
  from host_environment_unchanged [of host_heap demo_constants windows_host] a
  have "heap_after (run_validation demo_constants windows_host host_heap) ! os_environ
      = host_heap ! os_environ" by blast
  then have "heap_after (run_validation demo_constants windows_host host_heap) ! os_environ
      = host_environ" by (simp add: host_heap_def os_environ_def)
  with a b c show ?thesis by blast
qed

section \<open>One directory is never added twice\<close>


















section \<open>Failures\<close>

text \<open>Neither a reader nor a handler writes a status line.\<close>

lemma relay_line_status: "filter is_status (relay_line pfx line lg) = filter is_status lg"
  by (simp add: relay_line_def)

lemma read_stream_status:
  "filter is_status (fst (read_stream cd pfx ls ending lg)) = filter is_status lg"
  by (induction ls arbitrary: lg) (simp_all add: relay_line_status split: sum.split)

lemma gather_status:
  "filter is_status (fst (gather cd sched out out_end err err_end lg)) = filter is_status lg"
proof (induction cd sched out out_end err err_end lg rule: gather.induct)
  case (1 cd out out_end err err_end log)
  show ?case
  proof (cases "read_stream cd [] out out_end log")
    case (Pair lg' r)
    then have "filter is_status lg' = filter is_status log"
      using read_stream_status [of cd "[]" out out_end log] by simp
    with Pair show ?thesis
      by (cases r) (simp_all add: read_stream_status)
  qed
next
  case (2 cd sched out_end err err_end log)
  then show ?case by (simp add: read_stream_status split: option.split)
next
  case (3 cd sched line_bytes rest out_end err err_end log)
  then show ?case
    by (simp add: read_stream_status relay_line_status split: sum.split)
next
  case (4 cd sched out out_end err_end log)
  then show ?case by (simp add: read_stream_status split: option.split)
next
  case (5 cd sched out out_end line_bytes rest err_end log)
  then show ?case
    by (simp add: read_stream_status relay_line_status split: sum.split)
qed



lemma preamble_status: "filter is_status (preamble c w) = []"
  by (simp add: preamble_def)








lemma decodes_line: "decodes cd b \<Longrightarrow> decode_line cd b = Inr (line_text cd b)"
  by (cases "decode_line cd b") (simp_all add: decodes_def line_text_def)




section \<open>What the readers relay\<close>

lemma relay_line_relayed: "relay_line pfx (line_text cd b) lg = lg @ relayed cd pfx [b]"
  by (simp add: relay_line_def relayed_def)

lemma relayed_Cons: "relayed cd pfx (b # bs) = relayed cd pfx [b] @ relayed cd pfx bs"
  by (simp add: relayed_def)

lemma read_stream_relayed:
  "list_all (decodes cd) ls \<Longrightarrow> read_stream cd pfx ls None lg = (lg @ relayed cd pfx ls, None)"
proof (induction ls arbitrary: lg)
  case Nil
  then show ?case by (simp add: relayed_def)
next
  case (Cons b ls)
  then have d: "decodes cd b" and r: "list_all (decodes cd) ls" by simp_all
  from d have n: "b \<noteq> []" by (simp add: decodes_def)
  show ?case
    using Cons.IH [OF r] n decodes_line [OF d]
    by (simp add: relay_line_relayed relayed_Cons [of cd pfx b ls])
qed

lemma append_in_shuffles: "xs @ ys \<in> shuffles xs ys"
  by (induction xs) (simp_all add: Cons_in_shuffles_leftI)

lemma shuffles_prepend_left: "zs \<in> shuffles xs ys \<Longrightarrow> ps @ zs \<in> shuffles (ps @ xs) ys"
  by (induction ps) (simp_all add: Cons_in_shuffles_leftI)

lemma shuffles_prepend_right: "zs \<in> shuffles xs ys \<Longrightarrow> ps @ zs \<in> shuffles xs (ps @ ys)"
  by (induction ps) (simp_all add: Cons_in_shuffles_rightI)

lemma gather_relayed:
  assumes "list_all (decodes cd) out" and "list_all (decodes cd) err"
  shows "\<exists>zs. gather cd sched out None err None lg = (lg @ zs, None)
           \<and> zs \<in> shuffles (relayed cd [] out) (relayed cd stderr_prefix err)"
  using assms
proof (induction sched arbitrary: out err lg)
  case Nil
  then show ?case
    by (simp add: read_stream_relayed append_in_shuffles)
next
  case (Cons turn sched)
  show ?case
  proof (cases turn)
    case True
    show ?thesis
    proof (cases out)
      case Nil
      with True Cons.prems show ?thesis
        by (simp add: read_stream_relayed relayed_def)
    next
      case (Cons b rest)
      with Cons.prems have d: "decodes cd b" and r: "list_all (decodes cd) rest" by simp_all
      from d have n: "b \<noteq> []" by (simp add: decodes_def)
      obtain zs where zs: "gather cd sched rest None err None (lg @ relayed cd [] [b]) =
          ((lg @ relayed cd [] [b]) @ zs, None)"
        "zs \<in> shuffles (relayed cd [] rest) (relayed cd stderr_prefix err)"
        using Cons.IH [OF r Cons.prems(2)] by blast
      have "relayed cd [] [b] @ zs \<in> shuffles (relayed cd [] (b # rest)) (relayed cd stderr_prefix err)"
        using zs(2) relayed_Cons [of cd "[]" b rest] by (simp add: shuffles_prepend_left)
      with zs(1) True Cons n decodes_line [OF d] show ?thesis
        by (simp add: relay_line_relayed)
    qed
  next
    case False
    show ?thesis
    proof (cases err)
      case Nil
      with False Cons.prems show ?thesis
        by (simp add: read_stream_relayed relayed_def)
    next
      case (Cons b rest)
      with Cons.prems have d: "decodes cd b" and r: "list_all (decodes cd) rest" by simp_all
      from d have n: "b \<noteq> []" by (simp add: decodes_def)
      obtain zs where zs: "gather cd sched out None rest None (lg @ relayed cd stderr_prefix [b]) =
          ((lg @ relayed cd stderr_prefix [b]) @ zs, None)"
        "zs \<in> shuffles (relayed cd [] out) (relayed cd stderr_prefix rest)"
        using Cons.IH [OF Cons.prems(1) r] by blast
      have "relayed cd stderr_prefix [b] @ zs
          \<in> shuffles (relayed cd [] out) (relayed cd stderr_prefix (b # rest))"
        using zs(2) relayed_Cons [of cd stderr_prefix b rest] by (simp add: shuffles_prepend_right)
      with zs(1) False Cons n decodes_line [OF d] show ?thesis
        by (simp add: relay_line_relayed)
    qed
  qed
qed

lemma length_relayed:
  "length (relayed cd pfx ls) = length (filter (\<lambda>b. line_text cd b \<noteq> []) ls)"
  by (simp add: relayed_def filter_map comp_def)

section \<open>The reports of failures\<close>




text \<open>
  A run in which the read of stdout fails while stderr still has two lines: the report
  is written after the first of them, and the second is written once \<open>run_validation\<close>
  has returned.
\<close>

lemma broken_pipe_run:
  "log (run_validation demo_constants host_broken_pipe host_heap) =
     preamble demo_constants host_broken_pipe
     @ [Relay (lit ''ok''), Relay (stderr_prefix @ lit ''warn''),
        Report (lit ''Unexpected error: ConnectionResetError''),
        Report (lit ''   Connection lost''), Report [], Report (lit ''Full traceback:''),
        Report (lit ''   ConnectionResetError: Connection lost'')]"
  "late (run_validation demo_constants host_broken_pipe host_heap) =
     [Relay (stderr_prefix @ lit ''more'')]"
  by (simp_all add: run_validation_def try_block_def try_late_def handled_def handlers_def
      launch_and_relay_def relayed_late_def build_command_def with_stdbuf_def unexpected_report_def
      traceback_lines_def isspace_def format_msg_def relay_line_def
      host_broken_pipe_def launches_broken_def broken_process_def connection_reset_def
      host_simps ascii_simps)




section \<open>The exit code\<close>

lemma run_completes:
  assumes "script_exists w = Inr True"
    and "build_command c (sys_platform w) (which_stdbuf w) = Inr command"
    and "create_subprocess_exec w command (project_root w) (child_env w h) = Inr p"
    and "gather (decoder w) (schedule p) (stdout p) (stdout_end p) (stderr p) (stderr_end p)
           (preamble c w) = (lg, None)"
    and "wait p = Inr return_code"
  shows "log (run_validation c w h) =
           lg @ [Plain [], Plain (SEPARATOR c), Status (status_line c return_code),
                 Plain (SEPARATOR c)]"
    and "filter is_status (log (run_validation c w h)) = [Status (status_line c return_code)]"
    and "raised (run_validation c w h) = None"
proof -
  have t: "try_block c w h = (lg @ completion c return_code, None)"
    using assms by (simp add: try_block_def launch_and_relay_def)
  have "filter is_status lg = filter is_status (preamble c w)"
    using gather_status [of "decoder w" "schedule p" "stdout p" "stdout_end p" "stderr p"
        "stderr_end p" "preamble c w"] assms(4) by simp
  then have s: "filter is_status lg = []"
    by (simp add: preamble_status)
  show l: "log (run_validation c w h) =
           lg @ [Plain [], Plain (SEPARATOR c), Status (status_line c return_code),
                 Plain (SEPARATOR c)]"
    using assms(1) t by (simp add: run_validation_def handled_def completion_def)
  show "filter is_status (log (run_validation c w h)) = [Status (status_line c return_code)]"
    using l s by simp
  show "raised (run_validation c w h) = None"
    using assms(1) t by (simp add: run_validation_def handled_def)
qed




section \<open>Delivered lines\<close>

lemma rstrip_nl_strip_terminator:
  assumes "strip_terminator s = [] \<or>
           (last (strip_terminator s) \<noteq> 10 \<and> last (strip_terminator s) \<noteq> 13)"
  shows "rstrip_nl s = strip_terminator s"
proof -
  define r where "r = rev s"
  have k: "dropWhile (\<lambda>ch. ch = 10 \<or> ch = 13) t = t"
    if "t = [] \<or> (hd t \<noteq> 10 \<and> hd t \<noteq> (13::nat))" for t
    using that by (cases t) auto
  have h: "strip_terminator_rev r = [] \<or>
      (hd (strip_terminator_rev r) \<noteq> 10 \<and> hd (strip_terminator_rev r) \<noteq> 13)"
    using assms by (auto simp: strip_terminator_def r_def last_rev)
  have "dropWhile (\<lambda>ch. ch = 10 \<or> ch = 13) r = strip_terminator_rev r"
  proof (cases r)
    case Nil
    then show ?thesis by (simp add: strip_terminator_rev_def)
  next
    case (Cons x t)
    show ?thesis
    proof (cases "x = 10")
      case True
      show ?thesis
      proof (cases t)
        case Nil
        with True Cons show ?thesis by (simp add: strip_terminator_rev_def)
      next
        case (Cons y u)
        with True \<open>r = x # t\<close> h show ?thesis
          by (auto simp: strip_terminator_rev_def k split: if_splits)
      qed
    next
      case False
      with Cons h show ?thesis
        by (auto simp: strip_terminator_rev_def k split: if_splits)
    qed
  qed
  then show ?thesis
    by (simp add: rstrip_nl_def strip_terminator_def r_def)
qed

text \<open>
  C2, as the specification states it: each delivered text is the original line without
  its line terminator, and every line that is not empty without its terminator is
  delivered. The line \<open>a\<close> CR CR LF, which a child on Windows writes when it prints
  \<open>a\<close> CR LF in text mode, is \<open>a\<close> CR without its terminator; the reader delivers \<open>a\<close>.
  The line CR CR LF is CR without its terminator, which is not empty; the reader
  delivers nothing for it.
\<close>

theorem trailing_cr_stripped_with_terminator:
  "strip_terminator (lit ''a'' @ [13, 13, 10]) = lit ''a'' @ [13]
   \<and> gather ascii_codec [] [enc ''a'' @ [13, 13, 10]] None [] None [] = ([Relay (lit ''a'')], None)
   \<and> gather ascii_codec [] [enc ''a'' @ [13, 13, 10]] None [] None []
       \<noteq> ([Relay (strip_terminator (lit ''a'' @ [13, 13, 10]))], None)
   \<and> strip_terminator [13, 13, 10] = [13]
   \<and> gather ascii_codec [] [[13, 13, 10]] None [] None [] = ([], None)"
  by (simp add: strip_terminator_def strip_terminator_rev_def relay_line_def ascii_simps)

text \<open>
  C2, amended: when every raw line of the two streams decodes, the readers write one
  entry for each line whose text is not empty once every trailing CR and LF is stripped
  (not only the one terminator), N + M entries in all. The entries are an interleaving
  of those of stdout, which are the stripped texts in their order, and of those of
  stderr, which are the stripped texts in their order behind the stderr prefix. The
  stripped text is the line without its terminator whenever what remains does not end
  with a CR or an LF.
\<close>

theorem relay_delivers_stripped_lines:
  assumes "list_all (decodes cd) out" and "list_all (decodes cd) err"
  shows "\<exists>zs. gather cd sched out None err None lg = (lg @ zs, None)
           \<and> zs \<in> shuffles
                 (map Relay (filter (\<lambda>t. t \<noteq> []) (map (line_text cd) out)))
                 (map (\<lambda>t. Relay (stderr_prefix @ t))
                    (filter (\<lambda>t. t \<noteq> []) (map (line_text cd) err)))
           \<and> length zs = length (filter (\<lambda>b. line_text cd b \<noteq> []) out)
                        + length (filter (\<lambda>b. line_text cd b \<noteq> []) err)
           \<and> (\<forall>b s. decode_strict cd b = Inr s \<longrightarrow> line_text cd b = rstrip_nl s)
           \<and> (\<forall>s. strip_terminator s = [] \<or>
                  (last (strip_terminator s) \<noteq> 10 \<and> last (strip_terminator s) \<noteq> 13)
                \<longrightarrow> rstrip_nl s = strip_terminator s)"
proof -
  obtain zs where zs: "gather cd sched out None err None lg = (lg @ zs, None)"
    "zs \<in> shuffles (relayed cd [] out) (relayed cd stderr_prefix err)"
    using gather_relayed [OF assms] by blast
  have "length zs = length (relayed cd [] out) + length (relayed cd stderr_prefix err)"
    using zs(2) by (rule length_shuffles)
  then have l: "length zs = length (filter (\<lambda>b. line_text cd b \<noteq> []) out)
                        + length (filter (\<lambda>b. line_text cd b \<noteq> []) err)"
    by (simp add: length_relayed)
  have t: "\<forall>b s. decode_strict cd b = Inr s \<longrightarrow> line_text cd b = rstrip_nl s"
    by (simp add: line_text_def decode_line_def)
  have r: "\<forall>s. strip_terminator s = [] \<or>
                  (last (strip_terminator s) \<noteq> 10 \<and> last (strip_terminator s) \<noteq> 13)
                \<longrightarrow> rstrip_nl s = strip_terminator s"
    using rstrip_nl_strip_terminator by blast
  from zs l t r show ?thesis
    by (auto simp: relayed_def)
qed

theorem relay_delivers_stripped_lines_witness:
  "list_all (decodes ascii_codec) [enc ''ok'' @ [10], [10], [255, 10]]
   \<and> list_all (decodes ascii_codec) [enc ''warn'' @ [13, 10]]
   \<and> (\<exists>zs. gather ascii_codec [True, False, True] [enc ''ok'' @ [10], [10], [255, 10]] None
              [enc ''warn'' @ [13, 10]] None [] = (zs, None)
          \<and> length zs = 3)"
proof -
  have a: "list_all (decodes ascii_codec) [enc ''ok'' @ [10], [10], [255, 10]]"
    by (simp add: decodes_def ascii_simps)
  have b: "list_all (decodes ascii_codec) [enc ''warn'' @ [13, 10]]"
    by (simp add: decodes_def ascii_simps)
  have c: "length (filter (\<lambda>b. line_text ascii_codec b \<noteq> []) [enc ''ok'' @ [10], [10], [255, 10]]) = 2"
    by (simp add: line_text_def ascii_simps)
  have d: "length (filter (\<lambda>b. line_text ascii_codec b \<noteq> []) [enc ''warn'' @ [13, 10]]) = 1"
    by (simp add: line_text_def ascii_simps)
  obtain zs where "gather ascii_codec [True, False, True] [enc ''ok'' @ [10], [10], [255, 10]] None
              [enc ''warn'' @ [13, 10]] None [] = ([] @ zs, None)"
    and "length zs = length (filter (\<lambda>b. line_text ascii_codec b \<noteq> []) [enc ''ok'' @ [10], [10], [255, 10]])
       + length (filter (\<lambda>b. line_text ascii_codec b \<noteq> []) [enc ''warn'' @ [13, 10]])"
    using relay_delivers_stripped_lines [OF a b, of "[True, False, True]" "[]"] by blast
  with a b c d show ?thesis by simp
qed

section \<open>Blank lines\<close>

lemma read_stream_blank:
  "blank_line cd b \<Longrightarrow> read_stream cd pfx (b # rest) ending lg = read_stream cd pfx rest ending lg"
  by (simp add: blank_line_def relay_line_def)

lemma gather_blank_out:
  "blank_line cd b \<Longrightarrow>
     gather cd (True # sched) (b # out) out_end err err_end lg =
     gather cd sched out out_end err err_end lg"
  by (simp add: blank_line_def relay_line_def)

lemma gather_blank_err:
  "blank_line cd b \<Longrightarrow>
     gather cd (False # sched) out out_end (b # err) err_end lg =
     gather cd sched out out_end err err_end lg"
  by (simp add: blank_line_def relay_line_def)

lemma read_stream_without_blanks:
  "read_stream cd pfx (without_blanks cd ls) ending lg = read_stream cd pfx ls ending lg"
proof (induction ls arbitrary: lg)
  case Nil
  then show ?case by (simp add: without_blanks_def)
next
  case (Cons b ls)
  show ?case
  proof (cases "blank_line cd b")
    case True
    then have "read_stream cd pfx (b # ls) ending lg = read_stream cd pfx ls ending lg"
      by (rule read_stream_blank)
    with Cons True show ?thesis by (simp add: without_blanks_def del: read_stream.simps)
  next
    case False
    with Cons show ?thesis by (simp add: without_blanks_def split: sum.split)
  qed
qed

lemma without_blanks_Nil: "without_blanks cd [] = []"
  by (simp add: without_blanks_def)

lemma without_blanks_Cons:
  "without_blanks cd (b # bs) =
     (if blank_line cd b then without_blanks cd bs else b # without_blanks cd bs)"
  by (simp add: without_blanks_def)

lemma gather_without_blanks:
  "\<exists>sched'. gather cd sched' (without_blanks cd out) out_end
       (without_blanks cd err) err_end lg =
     gather cd sched out out_end err err_end lg"
proof (induction sched arbitrary: out err lg)
  case Nil
  have "gather cd [] (without_blanks cd out) out_end
       (without_blanks cd err) err_end lg =
     gather cd [] out out_end err err_end lg"
    by (simp add: read_stream_without_blanks)
  then show ?case by blast
next
  case (Cons turn sched)
  show ?case
  proof (cases turn)
    case True
    show ?thesis
    proof (cases out)
      case Nil
      have "gather cd [True] (without_blanks cd out) out_end
              (without_blanks cd err) err_end lg =
          gather cd (turn # sched) out out_end err err_end lg"
        using Nil \<open>turn\<close> by (simp add: read_stream_without_blanks without_blanks_Nil split: option.split)
      then show ?thesis by blast
    next
      case (Cons b bs)
      show ?thesis
      proof (cases "blank_line cd b")
        case blank: True
        obtain s' where "gather cd s' (without_blanks cd bs) out_end
              (without_blanks cd err) err_end lg =
            gather cd sched bs out_end err err_end lg"
          using Cons.IH by blast
        then have "gather cd s' (without_blanks cd out) out_end
              (without_blanks cd err) err_end lg =
          gather cd (turn # sched) out out_end err err_end lg"
          using blank Cons \<open>turn\<close> by (simp add: blank_line_def relay_line_def without_blanks_Cons)
        then show ?thesis by blast
      next
        case keep: False
        show ?thesis
        proof (cases "b = []")
          case True
          have "gather cd [True] (without_blanks cd out) out_end
              (without_blanks cd err) err_end lg =
          gather cd (turn # sched) out out_end err err_end lg"
            using True keep Cons \<open>turn\<close>
            by (simp add: read_stream_without_blanks without_blanks_Cons)
          then show ?thesis by blast
        next
          case False
          show ?thesis
          proof (cases "decode_line cd b")
            case (Inl e)
            have "gather cd [True] (without_blanks cd out) out_end
              (without_blanks cd err) err_end lg =
          gather cd (turn # sched) out out_end err err_end lg"
              using False keep Inl Cons \<open>turn\<close> by (simp add: without_blanks_Cons)
            then show ?thesis by blast
          next
            case (Inr line)
            obtain s' where "gather cd s' (without_blanks cd bs) out_end
              (without_blanks cd err) err_end (relay_line [] line lg) =
                gather cd sched bs out_end err err_end (relay_line [] line lg)"
              using Cons.IH by blast
            then have "gather cd (True # s') (without_blanks cd out) out_end (without_blanks cd err) err_end lg =
          gather cd (turn # sched) out out_end err err_end lg"
              using False keep Inr Cons \<open>turn\<close> by (simp add: without_blanks_Cons)
            then show ?thesis by blast
          qed
        qed
      qed
    qed
  next
    case False
    show ?thesis
    proof (cases err)
      case Nil
      have "gather cd [False] (without_blanks cd out) out_end
              (without_blanks cd err) err_end lg =
          gather cd (turn # sched) out out_end err err_end lg"
        using Nil \<open>\<not> turn\<close> by (simp add: read_stream_without_blanks without_blanks_Nil split: option.split)
      then show ?thesis by blast
    next
      case (Cons b bs)
      show ?thesis
      proof (cases "blank_line cd b")
        case blank: True
        obtain s' where "gather cd s' (without_blanks cd out) out_end
              (without_blanks cd bs) err_end lg =
            gather cd sched out out_end bs err_end lg"
          using Cons.IH by blast
        then have "gather cd s' (without_blanks cd out) out_end
              (without_blanks cd err) err_end lg =
          gather cd (turn # sched) out out_end err err_end lg"
          using blank Cons \<open>\<not> turn\<close> by (simp add: blank_line_def relay_line_def without_blanks_Cons)
        then show ?thesis by blast
      next
        case keep: False
        show ?thesis
        proof (cases "b = []")
          case True
          have "gather cd [False] (without_blanks cd out) out_end
              (without_blanks cd err) err_end lg =
          gather cd (turn # sched) out out_end err err_end lg"
            using True keep Cons \<open>\<not> turn\<close>
            by (simp add: read_stream_without_blanks without_blanks_Cons)
          then show ?thesis by blast
        next
          case False
          show ?thesis
          proof (cases "decode_line cd b")
            case (Inl e)
            have "gather cd [False] (without_blanks cd out) out_end
              (without_blanks cd err) err_end lg =
          gather cd (turn # sched) out out_end err err_end lg"
              using False keep Inl Cons \<open>\<not> turn\<close> by (simp add: without_blanks_Cons)
            then show ?thesis by blast
          next
            case (Inr line)
            obtain s' where "gather cd s' (without_blanks cd out) out_end
              (without_blanks cd bs) err_end (relay_line stderr_prefix line lg) =
                gather cd sched out out_end bs err_end (relay_line stderr_prefix line lg)"
              using Cons.IH by blast
            then have "gather cd (False # s') (without_blanks cd out) out_end (without_blanks cd err) err_end lg =
          gather cd (turn # sched) out out_end err err_end lg"
              using False keep Inr Cons \<open>\<not> turn\<close> by (simp add: without_blanks_Cons)
            then show ?thesis by blast
          qed
        qed
      qed
    qed
  qed
qed

lemma strip_terminator_blank:
  assumes "line_bytes \<noteq> []" and "decode_strict cd line_bytes = Inr s"
    and "strip_terminator s = []"
  shows "blank_line cd line_bytes"
proof -
  have "rstrip_nl s = []"
    using rstrip_nl_strip_terminator [of s] assms(3) by simp
  with assms(1,2) show ?thesis
    by (simp add: blank_line_def decode_line_def)
qed

text \<open>
  C8: a line that is empty once decoded and stripped is never relayed. Whatever the two
  streams hold and however the readers take turns, the log and the outcome are those of
  a run on the streams without their blank lines; and where a reader meets a blank line
  it goes on to the next line with the log as it was. A line whose text is empty
  without its terminator is such a blank line.
\<close>

theorem blank_lines_never_relayed:
  "(\<exists>sched'. gather cd sched' (without_blanks cd out) out_end
        (without_blanks cd err) err_end lg =
      gather cd sched out out_end err err_end lg)
   \<and> (blank_line cd b \<longrightarrow>
        read_stream cd pfx (b # rest) ending lg = read_stream cd pfx rest ending lg
      \<and> gather cd (True # sched) (b # out) out_end err err_end lg =
          gather cd sched out out_end err err_end lg
      \<and> gather cd (False # sched) out out_end (b # err) err_end lg =
          gather cd sched out out_end err err_end lg)
   \<and> (b \<noteq> [] \<and> decode_strict cd b = Inr s \<and> strip_terminator s = [] \<longrightarrow> blank_line cd b)"
  using gather_without_blanks [of cd out out_end err err_end lg sched]
    read_stream_blank [of cd b pfx rest ending lg]
    gather_blank_out [of cd b sched out out_end err err_end lg]
    gather_blank_err [of cd b sched out out_end err err_end lg]
    strip_terminator_blank [of b cd s]
  by blast

theorem blank_lines_never_relayed_witness:
  "decode_strict ascii_codec [13, 10] = Inr [13, 10]
   \<and> strip_terminator [13, 10] = []
   \<and> blank_line ascii_codec [13, 10]
   \<and> gather ascii_codec [True, True] [[13, 10], enc ''ok'' @ [10]] None [] None [] =
       gather ascii_codec [True] [enc ''ok'' @ [10]] None [] None []
   \<and> gather ascii_codec [True] [enc ''ok'' @ [10]] None [] None [] = ([Relay (lit ''ok'')], None)"
proof -
  have a: "blank_line ascii_codec [13, 10]"
    by (simp add: blank_line_def ascii_simps)
  have b: "gather ascii_codec [True] [enc ''ok'' @ [10]] None [] None [] = ([Relay (lit ''ok'')], None)"
    by (simp add: relay_line_def ascii_simps)
  have d: "decode_strict ascii_codec [13, 10] = Inr [13, 10]"
    by (simp add: ascii_codec_def codec_of_def)
  have t: "strip_terminator [13, 10] = []"
    by (simp add: strip_terminator_def strip_terminator_rev_def)
  from blank_lines_never_relayed [of ascii_codec "[enc ''ok'' @ [10]]" None "[]" None "[]"
      "[True]" "[13, 10]"] a
  have "gather ascii_codec [True, True] [[13, 10], enc ''ok'' @ [10]] None [] None [] =
       gather ascii_codec [True] [enc ''ok'' @ [10]] None [] None []"
    by blast
  with a b d t show ?thesis by blast
qed

section \<open>Malformed lines\<close>

lemma decode_replace_total: "\<exists>s. decode sc Replace pos b = Inr s"
proof (induction b arbitrary: pos rule: length_induct)
  case (1 b)
  show ?case
  proof (cases b)
    case Nil
    then show ?thesis by simp
  next
    case (Cons x xs)
    show ?thesis
    proof (cases "sc pos (x # xs)")
      case (Decoded t n)
      have "length (drop n xs) < length b" using Cons by simp
      then obtain r where "decode sc Replace (pos + Suc n) (drop n xs) = Inr r"
        using 1 by blast
      with Cons Decoded show ?thesis by simp
    next
      case (Invalid n e)
      have "length (drop n xs) < length b" using Cons by simp
      then obtain r where "decode sc Replace (pos + Suc n) (drop n xs) = Inr r"
        using 1 by blast
      with Cons Invalid show ?thesis by simp
    qed
  qed
qed

lemma decode_strict_fails:
  "decode sc Strict pos b = Inl e \<Longrightarrow>
     exc_class e = UnicodeDecodeError \<and> (\<exists>s. decode sc Replace pos b = Inr s \<and> 65533 \<in> set s)"
proof (induction b arbitrary: pos rule: length_induct)
  case (1 b)
  show ?case
  proof (cases b)
    case Nil
    with 1 show ?thesis by simp
  next
    case (Cons x xs)
    have len: "length (drop n xs) < length b" for n using Cons by simp
    show ?thesis
    proof (cases "sc pos (x # xs)")
      case (Decoded t n)
      with 1(2) Cons have "decode sc Strict (pos + Suc n) (drop n xs) = Inl e"
        by (simp split: sum.splits)
      then have "exc_class e = UnicodeDecodeError \<and>
          (\<exists>s. decode sc Replace (pos + Suc n) (drop n xs) = Inr s \<and> 65533 \<in> set s)"
        using 1(1) len by blast
      with Cons Decoded show ?thesis by auto
    next
      case (Invalid n e')
      obtain r where "decode sc Replace (pos + Suc n) (drop n xs) = Inr r"
        using decode_replace_total by blast
      with 1(2) Cons Invalid show ?thesis by auto
    qed
  qed
qed

lemma codec_of_decodes: "b \<noteq> [] \<Longrightarrow> decodes (codec_of sc) b"
proof (cases "decode sc Strict 0 b")
  case (Inl e)
  assume "b \<noteq> []"
  moreover from Inl have "exc_class e = UnicodeDecodeError" 
    using decode_strict_fails by blast
  moreover obtain s where "decode sc Replace 0 b = Inr s"
    using decode_replace_total by blast
  ultimately show ?thesis
    using Inl by (simp add: decodes_def decode_line_def codec_of_def SUBPROCESS_ERROR_HANDLING_def)
next
  case (Inr s)
  assume "b \<noteq> []"
  with Inr show ?thesis
    by (simp add: decodes_def decode_line_def codec_of_def)
qed

lemma rstrip_nl_keeps:
  assumes "m \<in> set s" and "m \<noteq> 10" and "m \<noteq> 13"
  shows "m \<in> set (rstrip_nl s)"
proof -
  have "m \<in> set (dropWhile (\<lambda>ch. ch = 10 \<or> ch = 13) r)" if "m \<in> set r" for r
    using that assms(2,3) by (induction r) auto
  then show ?thesis
    using assms(1) by (simp add: rstrip_nl_def)
qed

lemma relayed_mem:
  "b \<in> set ls \<Longrightarrow> line_text cd b \<noteq> [] \<Longrightarrow> Relay (pfx @ line_text cd b) \<in> set (relayed cd pfx ls)"
  by (auto simp: relayed_def)

lemma replaced_line:
  assumes "decode_strict (codec_of sc) b = Inl e"
  shows "b \<noteq> []"
    and "\<exists>s. decode_handled (codec_of sc) b = Inr s \<and> 65533 \<in> set s
           \<and> decode_line (codec_of sc) b = Inr (rstrip_nl s) \<and> 65533 \<in> set (rstrip_nl s)"
proof -
  from assms have f: "decode sc Strict 0 b = Inl e"
    by (simp add: codec_of_def)
  then show "b \<noteq> []" by auto
  from f obtain s where c: "exc_class e = UnicodeDecodeError"
    and s: "decode sc Replace 0 b = Inr s" "65533 \<in> set s"
    using decode_strict_fails by blast
  have "65533 \<in> set (rstrip_nl s)"
    using s(2) by (rule rstrip_nl_keeps) simp_all
  with f c s show "\<exists>s. decode_handled (codec_of sc) b = Inr s \<and> 65533 \<in> set s
           \<and> decode_line (codec_of sc) b = Inr (rstrip_nl s) \<and> 65533 \<in> set (rstrip_nl s)"
    by (simp add: codec_of_def SUBPROCESS_ERROR_HANDLING_def decode_line_def)
qed

lemma run_with_codec:
  assumes "decoder w = codec_of sc"
    and "script_exists w = Inr True"
    and "launched c w h = Some p"
    and "[] \<notin> set (stdout p)" and "[] \<notin> set (stderr p)"
    and "stdout_end p = None" and "stderr_end p = None"
    and "wait p = Inr return_code"
  shows "raised (run_validation c w h) = None"
    and "filter is_status (log (run_validation c w h)) = [Status (status_line c return_code)]"
    and "b \<in> set (stdout p) \<Longrightarrow> line_text (decoder w) b \<noteq> [] \<Longrightarrow>
           Relay (line_text (decoder w) b) \<in> set (log (run_validation c w h))"
    and "b \<in> set (stderr p) \<Longrightarrow> line_text (decoder w) b \<noteq> [] \<Longrightarrow>
           Relay (stderr_prefix @ line_text (decoder w) b) \<in> set (log (run_validation c w h))"
proof -
  from assms(3) obtain command where
    bc: "build_command c (sys_platform w) (which_stdbuf w) = Inr command"
    and l: "create_subprocess_exec w command (project_root w) (child_env w h) = Inr p"
    by (auto simp: launched_def split: sum.splits)
  have o: "list_all (decodes (decoder w)) (stdout p)"
    using assms(1,4) by (auto simp: list_all_iff intro!: codec_of_decodes)
  have e: "list_all (decodes (decoder w)) (stderr p)"
    using assms(1,5) by (auto simp: list_all_iff intro!: codec_of_decodes)
  obtain zs where zs: "gather (decoder w) (schedule p) (stdout p) None (stderr p) None
        (preamble c w) = (preamble c w @ zs, None)"
    "zs \<in> shuffles (relayed (decoder w) [] (stdout p)) (relayed (decoder w) stderr_prefix (stderr p))"
    using gather_relayed [OF o e] by blast
  have g: "gather (decoder w) (schedule p) (stdout p) (stdout_end p) (stderr p) (stderr_end p)
        (preamble c w) = (preamble c w @ zs, None)"
    using zs(1) assms(6,7) by simp
  note rc = run_completes [OF assms(2) bc l g assms(8)]
  show "raised (run_validation c w h) = None" by (rule rc(3))
  show "filter is_status (log (run_validation c w h)) = [Status (status_line c return_code)]"
    by (rule rc(2))
  have z: "set zs = set (relayed (decoder w) [] (stdout p))
      \<union> set (relayed (decoder w) stderr_prefix (stderr p))"
    using zs(2) by (rule set_shuffles)
  show "Relay (line_text (decoder w) b) \<in> set (log (run_validation c w h))"
    if "b \<in> set (stdout p)" "line_text (decoder w) b \<noteq> []"
    using relayed_mem [of b "stdout p" "decoder w" "[]"] that z rc(1) by simp
  show "Relay (stderr_prefix @ line_text (decoder w) b) \<in> set (log (run_validation c w h))"
    if "b \<in> set (stderr p)" "line_text (decoder w) b \<noteq> []"
    using relayed_mem [of b "stderr p" "decoder w" stderr_prefix] that z rc(1) by simp
qed

text \<open>
  C6: \<open>read_stream\<close> decodes with the configured encoding and, when that raises, once
  more with the configured error handling, which is \<open>replace\<close>. For a line on which the
  strict decoding raises, the second decoding raises nothing and gives a text with the
  replacement character U+FFFD (65533); \<open>decode_line\<close> returns that text without its
  trailing CR and LF, which still holds the replacement character; the reader, on
  either stream, writes it to the log and goes on with the lines that follow. In a run
  whose streams are read to their end and whose \<open>process.wait()\<close> returns, whatever the
  lines of the streams are, no exception is raised, the log holds the status line of
  the exit code, and the replaced text of such a line of stdout or stderr is in the log.
\<close>

theorem malformed_line_replaced:
  assumes "decoder w = codec_of sc"
    and "decode_strict (decoder w) b = Inl e"
  shows "\<exists>s. decode_handled (decoder w) b = Inr s \<and> 65533 \<in> set s
           \<and> decode_line (decoder w) b = Inr (rstrip_nl s) \<and> 65533 \<in> set (rstrip_nl s)
           \<and> read_stream (decoder w) pfx (b # rest) ending lg =
               read_stream (decoder w) pfx rest ending (lg @ [Relay (pfx @ rstrip_nl s)])
           \<and> gather (decoder w) (True # sched) (b # out) out_end err err_end lg =
               gather (decoder w) sched out out_end err err_end (lg @ [Relay (rstrip_nl s)])
           \<and> gather (decoder w) (False # sched) out out_end (b # err) err_end lg =
               gather (decoder w) sched out out_end err err_end
                 (lg @ [Relay (stderr_prefix @ rstrip_nl s)])
           \<and> (script_exists w = Inr True \<and> launched c w h = Some p
               \<and> [] \<notin> set (stdout p) \<and> [] \<notin> set (stderr p)
               \<and> stdout_end p = None \<and> stderr_end p = None \<and> wait p = Inr return_code \<longrightarrow>
                 raised (run_validation c w h) = None
               \<and> filter is_status (log (run_validation c w h)) =
                   [Status (status_line c return_code)]
               \<and> (b \<in> set (stdout p) \<longrightarrow>
                    Relay (rstrip_nl s) \<in> set (log (run_validation c w h)))
               \<and> (b \<in> set (stderr p) \<longrightarrow>
                    Relay (stderr_prefix @ rstrip_nl s) \<in> set (log (run_validation c w h))))"
proof -
  from assms have f: "decode_strict (codec_of sc) b = Inl e" by simp
  have n: "b \<noteq> []" using f by (rule replaced_line(1))
  obtain s where s: "decode_handled (codec_of sc) b = Inr s" "65533 \<in> set s"
    "decode_line (codec_of sc) b = Inr (rstrip_nl s)" "65533 \<in> set (rstrip_nl s)"
    using replaced_line(2) [OF f] by blast
  have ne: "rstrip_nl s \<noteq> []" using s(4) by auto
  have t: "line_text (decoder w) b = rstrip_nl s"
    using s(3) assms(1) by (simp add: line_text_def)
  have r: "raised (run_validation c w h) = None
        \<and> filter is_status (log (run_validation c w h)) = [Status (status_line c return_code)]
        \<and> (b \<in> set (stdout p) \<longrightarrow> Relay (rstrip_nl s) \<in> set (log (run_validation c w h)))
        \<and> (b \<in> set (stderr p) \<longrightarrow>
             Relay (stderr_prefix @ rstrip_nl s) \<in> set (log (run_validation c w h)))"
    if "script_exists w = Inr True" "launched c w h = Some p"
      "[] \<notin> set (stdout p)" "[] \<notin> set (stderr p)"
      "stdout_end p = None" "stderr_end p = None" "wait p = Inr return_code"
    using run_with_codec(1,2) [OF assms(1) that] run_with_codec(3,4) [OF assms(1) that, of b]
      t ne by simp
  show ?thesis
    using s n ne r assms(1)
    by (intro exI [of _ s]) (simp add: relay_line_def)
qed

theorem malformed_line_replaced_witness:
  "decoder linux_host = codec_of ascii_scan
   \<and> decode_strict (decoder linux_host) [255, 10] = Inl (ascii_decode_error 255 0)
   \<and> decode_handled (decoder linux_host) [255, 10] = Inr [65533, 10]
   \<and> launched demo_constants linux_host host_heap = Some demo_process
   \<and> [255, 10] \<in> set (stdout demo_process)
   \<and> raised (run_validation demo_constants linux_host host_heap) = None
   \<and> Relay [65533] \<in> set (log (run_validation demo_constants linux_host host_heap))"
proof -
  have d: "decoder linux_host = codec_of ascii_scan"
    by (simp add: linux_host_def ascii_codec_def)
  have f: "decode_strict (decoder linux_host) [255, 10] = Inl (ascii_decode_error 255 0)"
    by (simp add: linux_host_def ascii_codec_def codec_of_def ascii_decode_error_def)
  have r: "decode_handled (decoder linux_host) [255, 10] = Inr [65533, 10]"
    by (simp add: linux_host_def ascii_codec_def codec_of_def SUBPROCESS_ERROR_HANDLING_def)
  have x: "script_exists linux_host = Inr True"
    by (simp add: host_simps)
  have l: "launched demo_constants linux_host host_heap = Some demo_process"
    by (simp add: launched_def build_command_def with_stdbuf_def host_simps
        always_launches_def)
  have p: "[] \<notin> set (stdout demo_process)" "[] \<notin> set (stderr demo_process)"
    "stdout_end demo_process = None" "stderr_end demo_process = None"
    "wait demo_process = Inr 2" "[255, 10] \<in> set (stdout demo_process)"
    by (simp_all add: demo_process_def enc_def)
  have t: "rstrip_nl [65533, 10] = [65533]"
    by (simp add: rstrip_nl_def)
  obtain s where "decode_handled (decoder linux_host) [255, 10] = Inr s"
    and "raised (run_validation demo_constants linux_host host_heap) = None"
    and "Relay (rstrip_nl s) \<in> set (log (run_validation demo_constants linux_host host_heap))"
    using malformed_line_replaced [where c = demo_constants and h = host_heap
        and p = demo_process and return_code = 2, OF d f] x l p
    by blast
  with r t have "raised (run_validation demo_constants linux_host host_heap) = None
      \<and> Relay [65533] \<in> set (log (run_validation demo_constants linux_host host_heap))"
    by simp
  with d f r l p(6) show ?thesis by blast
qed

end
